theory Spec2Isabelle
  imports Main "HOL-Library.Word"
begin

section \<open>The contact-flow Lambda of \<^verbatim>\<open>lambda_function.py\<close>\<close>

text \<open>
  The handler receives a JSON-decoded event, reads eight fields out of it with chains of
  \<^verbatim>\<open>dict.get\<close>, validates two of them, builds a payload and makes at most one
  HTTP POST. The embedding keeps Python's dynamic typing: an event is any JSON value, a
  \<^verbatim>\<open>.get\<close> on a value that is not a dict raises \<^verbatim>\<open>AttributeError\<close>, and
  \<^verbatim>\<open>or\<close> / \<^verbatim>\<open>not\<close> test Python's truth value. Printing is not modelled:
  \<^verbatim>\<open>json.dumps\<close> of JSON-decoded data does not raise and the log lines are not
  part of any result.
\<close>

subsection \<open>JSON values as Python sees them\<close>

text \<open>
  A Python float is a finite binary fraction (mantissa and exponent), an infinity or a
  NaN; only its truth value matters here.
\<close>

datatype pyfloat = Finite int int | Infinity bool | NaN

text \<open>
  \<^verbatim>\<open>None\<close> is \<open>JNull\<close>. A dict is an association list read with \<open>map_of\<close>.
\<close>

datatype json =
    JNull
  | JBool bool
  | JInt int
  | JFloat pyfloat
  | JStr string
  | JArr "json list"
  | JObj "(string \<times> json) list"

datatype py_error = AttributeError | UnicodeDecodeError | ReadError

fun float_truthy :: "pyfloat \<Rightarrow> bool" where
  "float_truthy (Finite m e) = (m \<noteq> 0)"
| "float_truthy (Infinity s) = True"
| "float_truthy NaN = True"

text \<open>Python's \<^verbatim>\<open>bool(v)\<close>, the test behind \<^verbatim>\<open>not v\<close> and \<^verbatim>\<open>v or w\<close>.\<close>

fun truthy :: "json \<Rightarrow> bool" where
  "truthy JNull = False"
| "truthy (JBool b) = b"
| "truthy (JInt n) = (n \<noteq> 0)"
| "truthy (JFloat x) = float_truthy x"
| "truthy (JStr s) = (s \<noteq> [])"
| "truthy (JArr xs) = (xs \<noteq> [])"
| "truthy (JObj kvs) = (kvs \<noteq> [])"

text \<open>
  \<^verbatim>\<open>v.get(k, d)\<close>: the value under \<open>k\<close>, \<open>d\<close> when the key is missing,
  \<^verbatim>\<open>AttributeError\<close> when \<open>v\<close> is not a dict (str, list, int, float, bool and
  \<^verbatim>\<open>None\<close> have no \<^verbatim>\<open>get\<close>).
\<close>

fun dict_get :: "json \<Rightarrow> string \<Rightarrow> json \<Rightarrow> py_error + json" where
  "dict_get (JObj kvs) k d = Inr (case map_of kvs k of None \<Rightarrow> d | Some v \<Rightarrow> v)"
| "dict_get _ k d = Inl AttributeError"

text \<open>Sequencing of statements that may raise: the first exception ends the run.\<close>

definition bind :: "py_error + 'a \<Rightarrow> ('a \<Rightarrow> py_error + 'b) \<Rightarrow> py_error + 'b" where
  "bind m k = (case m of Inl e \<Rightarrow> Inl e | Inr v \<Rightarrow> k v)"

subsection \<open>Extraction (lines 41 to 79)\<close>

record fields =
  contact_id :: json
  instance_arn :: json
  customer_number :: json
  agent_arn :: json
  agent_username :: json
  queue_name :: json
  initiation_method :: json
  stream_arn :: json

text \<open>
  Line 61: \<^verbatim>\<open>agent_data.get("ARN") or attributes.get("agent_arn") or None\<close>.
  \<^verbatim>\<open>or\<close> is lazy: \<^verbatim>\<open>attributes.get\<close> runs only when the first value is falsy.
\<close>

definition agent_arn_of :: "json \<Rightarrow> json \<Rightarrow> py_error + json" where
  "agent_arn_of agent_data attributes =
     bind (dict_get agent_data ''ARN'' JNull) (\<lambda>a.
       if truthy a then Inr a
       else bind (dict_get attributes ''agent_arn'' JNull) (\<lambda>b.
         if truthy b then Inr b else Inr JNull))"

text \<open>Lines 62 to 67, the three-step chain for the user name.\<close>

definition agent_username_of :: "json \<Rightarrow> json \<Rightarrow> json \<Rightarrow> py_error + json" where
  "agent_username_of agent_data attributes contact_data =
     bind (dict_get agent_data ''Username'' JNull) (\<lambda>a.
       if truthy a then Inr a
       else bind (dict_get attributes ''agent_username'' JNull) (\<lambda>b.
         if truthy b then Inr b
         else bind (dict_get contact_data ''Name'' JNull) (\<lambda>c.
           if truthy c then Inr c else Inr JNull)))"

definition extract_fields :: "json \<Rightarrow> py_error + fields" where
  "extract_fields event =
     bind (dict_get event ''Details'' (JObj [])) (\<lambda>details.
     bind (dict_get details ''ContactData'' (JObj [])) (\<lambda>contact_data.
     bind (dict_get contact_data ''ContactId'' (JStr [])) (\<lambda>cid.
     bind (dict_get contact_data ''InstanceARN'' (JStr [])) (\<lambda>iarn.
     bind (dict_get contact_data ''CustomerEndpoint'' (JObj [])) (\<lambda>customer_endpoint.
     bind (dict_get customer_endpoint ''Address'' (JStr [])) (\<lambda>cnum.
     bind (dict_get contact_data ''Agent'' (JObj [])) (\<lambda>agent_data.
     bind (dict_get contact_data ''Attributes'' (JObj [])) (\<lambda>attributes.
     bind (agent_arn_of agent_data attributes) (\<lambda>aarn.
     bind (agent_username_of agent_data attributes contact_data) (\<lambda>auser.
     bind (dict_get contact_data ''Queue'' (JObj [])) (\<lambda>queue_data.
     bind (dict_get queue_data ''Name'' (JStr [])) (\<lambda>qname.
     bind (dict_get contact_data ''InitiationMethod'' (JStr [])) (\<lambda>imeth.
     bind (dict_get contact_data ''MediaStreams'' (JObj [])) (\<lambda>media_streams.
     bind (dict_get media_streams ''Customer'' (JObj [])) (\<lambda>customer.
     bind (dict_get customer ''Audio'' (JObj [])) (\<lambda>customer_audio.
     bind (dict_get customer_audio ''StreamARN'' (JStr [])) (\<lambda>sarn.
       Inr \<lparr>contact_id = cid, instance_arn = iarn, customer_number = cnum,
            agent_arn = aarn, agent_username = auser, queue_name = qname,
            initiation_method = imeth, stream_arn = sarn\<rparr>)))))))))))))))))"

subsection \<open>Payload (lines 96 to 105)\<close>

text \<open>\<^verbatim>\<open>v or None\<close>.\<close>

definition or_none :: "json \<Rightarrow> json" where
  "or_none v = (if truthy v then v else JNull)"

definition build_payload :: "fields \<Rightarrow> (string \<times> json) list" where
  "build_payload f =
     [(''contact_id'', contact_id f),
      (''stream_arn'', stream_arn f),
      (''customer_number'', or_none (customer_number f)),
      (''agent_arn'', or_none (agent_arn f)),
      (''agent_username'', or_none (agent_username f)),
      (''instance_arn'', or_none (instance_arn f)),
      (''queue_name'', or_none (queue_name f)),
      (''initiation_method'', or_none (initiation_method f))]"

subsection \<open>Configuration (lines 22 and 23)\<close>

text \<open>\<^verbatim>\<open>os.environ.get(name, "")\<close> over the process environment.\<close>

definition environ_get :: "(string \<times> string) list \<Rightarrow> string \<Rightarrow> string" where
  "environ_get env name = (case map_of env name of None \<Rightarrow> [] | Some v \<Rightarrow> v)"

definition WHISPA_API_URL :: "(string \<times> string) list \<Rightarrow> string" where
  "WHISPA_API_URL env = environ_get env ''WHISPA_API_URL''"

definition WHISPA_API_KEY :: "(string \<times> string) list \<Rightarrow> string" where
  "WHISPA_API_KEY env = environ_get env ''WHISPA_API_KEY''"

subsection \<open>The outbound call (lines 110 to 141)\<close>

record request =
  req_method :: string
  req_url :: string
  req_headers :: "(string \<times> string) list"
  req_body :: "(string \<times> json) list"
  req_timeout :: nat

text \<open>
  What one execution of lines 118 to 125 meets. \<open>Responded\<close>: \<^verbatim>\<open>urlopen\<close> returned a
  response with this status, and \<^verbatim>\<open>resp.read()\<close> gave these bytes or raised.
  \<open>HTTPError\<close>: \<^verbatim>\<open>urlopen\<close> raised \<^verbatim>\<open>HTTPError\<close> with this code; its \<^verbatim>\<open>fp\<close> is
  falsy (\<open>None\<close>) or a stream whose \<^verbatim>\<open>read()\<close> gives bytes or raises. \<open>URLError\<close>: no
  connection. \<open>OtherException\<close>: any other \<^verbatim>\<open>Exception\<close> of the \<^verbatim>\<open>try\<close> block, among
  them the \<^verbatim>\<open>ValueError\<close> of \<^verbatim>\<open>Request\<close> on a malformed URL and a timeout.
\<close>

datatype read_result = ReadBytes "8 word list" | ReadRaises

datatype delivery =
    Responded nat read_result
  | HTTPError nat "read_result option"
  | URLError
  | OtherException

text \<open>
  \<^verbatim>\<open>bytes.decode("utf-8")\<close> is strict: it raises \<^verbatim>\<open>UnicodeDecodeError\<close> unless the bytes
  are well-formed UTF-8 (no stray continuation byte, no overlong form, no surrogate,
  nothing above U+10FFFF).
\<close>

definition cont :: "8 word \<Rightarrow> bool" where
  "cont b = (0x80 \<le> b \<and> b \<le> 0xBF)"

fun utf8_ok :: "8 word list \<Rightarrow> bool" where
  "utf8_ok [] = True"
| "utf8_ok (b # bs) =
     (if b \<le> 0x7F then utf8_ok bs
      else if 0xC2 \<le> b \<and> b \<le> 0xDF then
        (case bs of b1 # r \<Rightarrow> cont b1 \<and> utf8_ok r | _ \<Rightarrow> False)
      else if 0xE0 \<le> b \<and> b \<le> 0xEF then
        (case bs of b1 # b2 # r \<Rightarrow>
           cont b1 \<and> cont b2 \<and> (if b = 0xE0 then 0xA0 \<le> b1 else True)
           \<and> (if b = 0xED then b1 \<le> 0x9F else True) \<and> utf8_ok r
         | _ \<Rightarrow> False)
      else if 0xF0 \<le> b \<and> b \<le> 0xF4 then
        (case bs of b1 # b2 # b3 # r \<Rightarrow>
           cont b1 \<and> cont b2 \<and> cont b3 \<and> (if b = 0xF0 then 0x90 \<le> b1 else True)
           \<and> (if b = 0xF4 then b1 \<le> 0x8F else True) \<and> utf8_ok r
         | _ \<Rightarrow> False)
      else False)"

text \<open>
  The \<^verbatim>\<open>try\<close> statement, lines 117 to 139: \<open>None\<close> when it completes, the exception
  that leaves it otherwise. Whatever the \<^verbatim>\<open>try\<close> block raises is caught by one of the
  three clauses, also a failure of \<^verbatim>\<open>resp.read().decode\<close>. Line 129 runs inside
  the \<^verbatim>\<open>except HTTPError\<close> clause, where no clause of the same statement applies any more:
  an exception of \<^verbatim>\<open>e.read()\<close> or of \<^verbatim>\<open>.decode("utf-8")\<close> there leaves the handler.
\<close>

fun deliver :: "delivery \<Rightarrow> py_error option" where
  "deliver (Responded status body) = None"
| "deliver (HTTPError code None) = None"
| "deliver (HTTPError code (Some ReadRaises)) = Some ReadError"
| "deliver (HTTPError code (Some (ReadBytes bs))) =
     (if utf8_ok bs then None else Some UnicodeDecodeError)"
| "deliver URLError = None"
| "deliver OtherException = None"

text \<open>\<^verbatim>\<open>s.rstrip('/')\<close> removes every trailing slash.\<close>

definition rstrip_slash :: "string \<Rightarrow> string" where
  "rstrip_slash s = rev (dropWhile (\<lambda>c. c = CHR ''/'') (rev s))"

definition build_headers :: "string \<Rightarrow> (string \<times> string) list" where
  "build_headers key =
     (if key \<noteq> [] then [(''Content-Type'', ''application/json''), (''X-API-Key'', key)]
      else [(''Content-Type'', ''application/json'')])"

definition build_request :: "(string \<times> string) list \<Rightarrow> (string \<times> json) list \<Rightarrow> request" where
  "build_request env payload =
     \<lparr>req_method = ''POST'',
      req_url = rstrip_slash (WHISPA_API_URL env) @ ''/awsconnect/call-started'',
      req_headers = build_headers (WHISPA_API_KEY env),
      req_body = payload,
      req_timeout = 10\<rparr>"

subsection \<open>The handler\<close>

definition missing_stream_arn :: "(string \<times> json) list" where
  "missing_stream_arn =
     [(''statusCode'', JInt 400),
      (''error'', JStr ''Missing stream_arn - 'Start media streaming' block must run first'')]"

definition missing_contact_id :: "(string \<times> json) list" where
  "missing_contact_id =
     [(''statusCode'', JInt 400), (''error'', JStr ''Missing contact_id in event'')]"

definition success :: "fields \<Rightarrow> (string \<times> json) list" where
  "success f =
     [(''statusCode'', JInt 200), (''contactId'', contact_id f), (''streamArn'', stream_arn f)]"

text \<open>
  The result is the returned dict or the exception that leaves the handler, together with
  the list of requests handed to \<^verbatim>\<open>urllib\<close>, in order. The backend and the network are
  the parameter \<open>net\<close>: what the attempt with a given request meets.
\<close>

definition lambda_handler ::
  "(string \<times> string) list \<Rightarrow> (request \<Rightarrow> delivery) \<Rightarrow> json
     \<Rightarrow> (py_error + (string \<times> json) list) \<times> request list" where
  "lambda_handler env net event =
     (case extract_fields event of
        Inl e \<Rightarrow> (Inl e, [])
      | Inr f \<Rightarrow>
          if \<not> truthy (stream_arn f) then (Inr missing_stream_arn, [])
          else if \<not> truthy (contact_id f) then (Inr missing_contact_id, [])
          else if WHISPA_API_URL env \<noteq> [] then
            (let req = build_request env (build_payload f) in
               case deliver (net req) of
                 Some e \<Rightarrow> (Inl e, [req])
               | None \<Rightarrow> (Inr (success f), [req]))
          else (Inr (success f), []))"


text \<open>
  The delivery is contained when no request is due (validation fails or no base URL is
  configured) or the \<^verbatim>\<open>try\<close> statement completes on what the request meets.
\<close>

definition delivery_contained ::
  "(string \<times> string) list \<Rightarrow> (request \<Rightarrow> delivery) \<Rightarrow> fields \<Rightarrow> bool" where
  "delivery_contained env net f =
     (if truthy (stream_arn f) \<and> truthy (contact_id f) \<and> WHISPA_API_URL env \<noteq> []
      then deliver (net (build_request env (build_payload f))) = None
      else True)"

subsection \<open>Vocabulary of the specification\<close>

text \<open>
  The specification names a field by its path in the event. \<open>lookup_path\<close> follows the
  keys from the event: \<open>None\<close> as soon as a key is missing or the value reached is not a
  dict.
\<close>

fun child :: "json \<Rightarrow> string \<Rightarrow> json option" where
  "child (JObj kvs) k = map_of kvs k"
| "child _ k = None"

fun descend :: "json option \<Rightarrow> string \<Rightarrow> json option" where
  "descend None k = None"
| "descend (Some v) k = child v k"

definition lookup_path :: "json \<Rightarrow> string list \<Rightarrow> json option" where
  "lookup_path ev ks = foldl descend (Some ev) ks"

definition get_or :: "json option \<Rightarrow> json \<Rightarrow> json" where
  "get_or x d = (case x of None \<Rightarrow> d | Some v \<Rightarrow> v)"

text \<open>
  ``Absent'' is the handler's own test: the key is missing, or the value under it is falsy
  (the empty string, and also \<^verbatim>\<open>null\<close>, \<^verbatim>\<open>0\<close>, \<^verbatim>\<open>false\<close>, \<^verbatim>\<open>[]\<close>,
  \<^verbatim>\<open>{}\<close>). ``Present and non-empty'' is its negation; on strings it is non-emptiness.
\<close>

definition absent :: "json option \<Rightarrow> bool" where
  "absent x = (case x of None \<Rightarrow> True | Some v \<Rightarrow> \<not> truthy v)"

definition present :: "json option \<Rightarrow> json \<Rightarrow> bool" where
  "present x v = (x = Some v \<and> truthy v)"

text \<open>``First non-absent of'' a list of candidates; \<^verbatim>\<open>None\<close> when there is none.\<close>

fun first_present :: "json option list \<Rightarrow> json" where
  "first_present [] = JNull"
| "first_present (None # xs) = first_present xs"
| "first_present (Some v # xs) = (if truthy v then v else first_present xs)"

abbreviation contact_id_path :: "string list" where
  "contact_id_path \<equiv> [''Details'', ''ContactData'', ''ContactId'']"

abbreviation instance_arn_path :: "string list" where
  "instance_arn_path \<equiv> [''Details'', ''ContactData'', ''InstanceARN'']"

abbreviation customer_number_path :: "string list" where
  "customer_number_path \<equiv> [''Details'', ''ContactData'', ''CustomerEndpoint'', ''Address'']"

abbreviation agent_arn_path :: "string list" where
  "agent_arn_path \<equiv> [''Details'', ''ContactData'', ''Agent'', ''ARN'']"

abbreviation attr_agent_arn_path :: "string list" where
  "attr_agent_arn_path \<equiv> [''Details'', ''ContactData'', ''Attributes'', ''agent_arn'']"

abbreviation agent_username_path :: "string list" where
  "agent_username_path \<equiv> [''Details'', ''ContactData'', ''Agent'', ''Username'']"

abbreviation attr_agent_username_path :: "string list" where
  "attr_agent_username_path \<equiv> [''Details'', ''ContactData'', ''Attributes'', ''agent_username'']"

abbreviation contact_name_path :: "string list" where
  "contact_name_path \<equiv> [''Details'', ''ContactData'', ''Name'']"

abbreviation queue_name_path :: "string list" where
  "queue_name_path \<equiv> [''Details'', ''ContactData'', ''Queue'', ''Name'']"

abbreviation initiation_method_path :: "string list" where
  "initiation_method_path \<equiv> [''Details'', ''ContactData'', ''InitiationMethod'']"

abbreviation stream_arn_path :: "string list" where
  "stream_arn_path \<equiv>
     [''Details'', ''ContactData'', ''MediaStreams'', ''Customer'', ''Audio'', ''StreamARN'']"

text \<open>The extraction rules of the specification, section 4.1, path by path.\<close>

definition spec_fields :: "json \<Rightarrow> fields" where
  "spec_fields ev =
     \<lparr>contact_id = get_or (lookup_path ev contact_id_path) (JStr []),
      instance_arn = get_or (lookup_path ev instance_arn_path) (JStr []),
      customer_number = get_or (lookup_path ev customer_number_path) (JStr []),
      agent_arn = first_present
        [lookup_path ev agent_arn_path, lookup_path ev attr_agent_arn_path],
      agent_username = first_present
        [lookup_path ev agent_username_path, lookup_path ev attr_agent_username_path,
         lookup_path ev contact_name_path],
      queue_name = get_or (lookup_path ev queue_name_path) (JStr []),
      initiation_method = get_or (lookup_path ev initiation_method_path) (JStr []),
      stream_arn = get_or (lookup_path ev stream_arn_path) (JStr [])\<rparr>"

text \<open>
  The nine intermediate objects the lookups pass through. An event has well-shaped levels
  when it is a dict and each of them is missing or a dict.
\<close>

fun is_mapping :: "json \<Rightarrow> bool" where
  "is_mapping (JObj kvs) = True"
| "is_mapping _ = False"

definition mapping_or_missing :: "json option \<Rightarrow> bool" where
  "mapping_or_missing x = (case x of None \<Rightarrow> True | Some v \<Rightarrow> is_mapping v)"

definition level_paths :: "string list list" where
  "level_paths =
     [[''Details''],
      [''Details'', ''ContactData''],
      [''Details'', ''ContactData'', ''CustomerEndpoint''],
      [''Details'', ''ContactData'', ''Agent''],
      [''Details'', ''ContactData'', ''Attributes''],
      [''Details'', ''ContactData'', ''Queue''],
      [''Details'', ''ContactData'', ''MediaStreams''],
      [''Details'', ''ContactData'', ''MediaStreams'', ''Customer''],
      [''Details'', ''ContactData'', ''MediaStreams'', ''Customer'', ''Audio'']]"

definition levels_ok :: "json \<Rightarrow> bool" where
  "levels_ok ev =
     (is_mapping ev \<and> list_all (\<lambda>p. mapping_or_missing (lookup_path ev p)) level_paths)"

text \<open>The two result shapes of the specification, section 3.\<close>

definition failure_record :: "string \<Rightarrow> (string \<times> json) list" where
  "failure_record e = [(''statusCode'', JInt 400), (''error'', JStr e)]"

definition success_record :: "json \<Rightarrow> json \<Rightarrow> (string \<times> json) list" where
  "success_record c s = [(''statusCode'', JInt 200), (''contactId'', c), (''streamArn'', s)]"

text \<open>A payload value as the specification types it: a non-empty string.\<close>

fun nonempty_text :: "json \<Rightarrow> bool" where
  "nonempty_text (JStr s) = (s \<noteq> [])"
| "nonempty_text _ = False"

fun text_or_null :: "json \<Rightarrow> bool" where
  "text_or_null (JStr s) = True"
| "text_or_null JNull = True"
| "text_or_null _ = False"

definition text_fields :: "fields \<Rightarrow> bool" where
  "text_fields f =
     (text_or_null (contact_id f) \<and> text_or_null (instance_arn f)
      \<and> text_or_null (customer_number f) \<and> text_or_null (agent_arn f)
      \<and> text_or_null (agent_username f) \<and> text_or_null (queue_name f)
      \<and> text_or_null (initiation_method f) \<and> text_or_null (stream_arn f))"

text \<open>The extraction of an event without any of the fields.\<close>

definition absent_fields :: fields where
  "absent_fields =
     \<lparr>contact_id = JStr [], instance_arn = JStr [], customer_number = JStr [],
      agent_arn = JNull, agent_username = JNull, queue_name = JStr [],
      initiation_method = JStr [], stream_arn = JStr []\<rparr>"

subsection \<open>Sample events, configurations and backends\<close>

text \<open>A backend that meets every request with the same outcome.\<close>

definition always :: "delivery \<Rightarrow> request \<Rightarrow> delivery" where
  "always d req = d"

definition env_configured :: "(string \<times> string) list" where
  "env_configured =
     [(''WHISPA_API_URL'', ''https://whispa.example/api/''), (''WHISPA_API_KEY'', ''k-1'')]"

definition env_no_key :: "(string \<times> string) list" where
  "env_no_key = [(''WHISPA_API_URL'', ''https://whispa.example'')]"

text \<open>The scenario of the specification, section 8: only the two required fields.\<close>

definition ev_minimal :: json where
  "ev_minimal =
     JObj [(''Details'', JObj [(''ContactData'', JObj
       [(''ContactId'', JStr ''c-1''),
        (''MediaStreams'', JObj [(''Customer'', JObj [(''Audio'', JObj
           [(''StreamARN'', JStr ''s-1'')])])])])])]"

definition ev_full :: json where
  "ev_full =
     JObj [(''Details'', JObj [(''ContactData'', JObj
       [(''ContactId'', JStr ''c-2''),
        (''InstanceARN'', JStr ''i-2''),
        (''CustomerEndpoint'', JObj [(''Address'', JStr ''+15550100'')]),
        (''Agent'', JObj [(''ARN'', JStr ''A1''), (''Username'', JStr ''U1'')]),
        (''Attributes'', JObj [(''agent_arn'', JStr ''A2''), (''agent_username'', JStr ''U2'')]),
        (''Name'', JStr ''N3''),
        (''Queue'', JObj [(''Name'', JStr ''support'')]),
        (''InitiationMethod'', JStr ''INBOUND''),
        (''MediaStreams'', JObj [(''Customer'', JObj [(''Audio'', JObj
           [(''StreamARN'', JStr ''s-2'')])])])])])]"

text \<open>No \<^verbatim>\<open>Agent\<close> object; the attributes carry the agent, with an empty user name.\<close>

definition ev_attributes :: json where
  "ev_attributes =
     JObj [(''Details'', JObj [(''ContactData'', JObj
       [(''ContactId'', JStr ''c-3''),
        (''Attributes'', JObj [(''agent_arn'', JStr ''A2''), (''agent_username'', JStr [])]),
        (''Name'', JStr ''N3''),
        (''MediaStreams'', JObj [(''Customer'', JObj [(''Audio'', JObj
           [(''StreamARN'', JStr ''s-3'')])])])])])]"

definition ev_no_stream :: json where
  "ev_no_stream =
     JObj [(''Details'', JObj [(''ContactData'', JObj
       [(''ContactId'', JStr ''c-4''),
        (''Agent'', JObj [(''Username'', JStr []), (''ARN'', JStr [])]),
        (''Attributes'', JObj [(''agent_username'', JStr ''U2'')])])])]"

definition ev_no_contact :: json where
  "ev_no_contact =
     JObj [(''Details'', JObj [(''ContactData'', JObj
       [(''ContactId'', JStr []),
        (''MediaStreams'', JObj [(''Customer'', JObj [(''Audio'', JObj
           [(''StreamARN'', JStr ''s-5'')])])])])])]"

text \<open>A contact id that is a JSON number.\<close>

definition ev_numeric_id :: json where
  "ev_numeric_id =
     JObj [(''Details'', JObj [(''ContactData'', JObj
       [(''ContactId'', JInt 7),
        (''MediaStreams'', JObj [(''Customer'', JObj [(''Audio'', JObj
           [(''StreamARN'', JStr ''s-6'')])])])])])]"

text \<open>Levels that are present and are not dicts.\<close>

definition ev_details_text :: json where
  "ev_details_text = JObj [(''Details'', JStr ''call-started'')]"

definition ev_agent_text :: json where
  "ev_agent_text =
     JObj [(''Details'', JObj [(''ContactData'', JObj
       [(''ContactId'', JStr ''c-8''), (''Agent'', JStr ''agent-8'')])])]"

text \<open>No media streams, and a queue given as its name instead of an object.\<close>

definition ev_queue_text :: json where
  "ev_queue_text =
     JObj [(''Details'', JObj [(''ContactData'', JObj
       [(''ContactId'', JStr ''c-9''), (''Queue'', JStr ''support'')])])]"

text \<open>An agent given as a string, beside attributes that carry the agent.\<close>

definition ev_agent_text_attributes :: json where
  "ev_agent_text_attributes =
     JObj [(''Details'', JObj [(''ContactData'', JObj
       [(''ContactId'', JStr ''c-10''),
        (''Agent'', JStr ''agent-10''),
        (''Attributes'', JObj [(''agent_arn'', JStr ''A2'')]),
        (''MediaStreams'', JObj [(''Customer'', JObj [(''Audio'', JObj
           [(''StreamARN'', JStr ''s-10'')])])])])])]"

text \<open>Attributes given as a string, beside a contact name.\<close>

definition ev_attributes_text :: json where
  "ev_attributes_text =
     JObj [(''Details'', JObj [(''ContactData'', JObj
       [(''ContactId'', JStr ''c-11''),
        (''Attributes'', JStr ''oops''),
        (''Name'', JStr ''N3''),
        (''MediaStreams'', JObj [(''Customer'', JObj [(''Audio'', JObj
           [(''StreamARN'', JStr ''s-11'')])])])])])]"

text \<open>
  Error bodies in Latin-1: \<^verbatim>\<open>caf\<close> followed by the byte \<^verbatim>\<open>E9\<close>, and the single byte
  \<^verbatim>\<open>FF\<close>. Neither is UTF-8.
\<close>

definition latin1_body :: "8 word list" where
  "latin1_body = [0x63, 0x61, 0x66, 0xE9]"


section \<open>Extraction agrees with the specification's paths\<close>

text \<open>
  One level at a time: when a receiver is the value of a level (or the default dict of a
  missing level) and \<^verbatim>\<open>.get\<close> returns, it returns what the path lookup finds one
  key further, or the default.
\<close>

lemma bind_Inr: "bind m k = Inr y \<longleftrightarrow> (\<exists>x. m = Inr x \<and> k x = Inr y)"
  by (cases m) (simp_all add: bind_def)

lemma dict_get_level:
  assumes "x = get_or X (JObj [])" and "dict_get x k d = Inr y"
  shows "y = get_or (descend X k) d"
proof (cases X)
  case None
  with assms show ?thesis by (simp add: get_or_def)
next
  case (Some v)
  with assms show ?thesis by (cases v) (simp_all add: get_or_def)
qed

lemma agent_arn_level:
  assumes "ad = get_or XA (JObj [])" and "at = get_or XT (JObj [])"
    and "agent_arn_of ad at = Inr y"
  shows "y = first_present [descend XA ''ARN'', descend XT ''agent_arn'']"
proof -
  from assms(3) obtain a where a: "dict_get ad ''ARN'' JNull = Inr a"
    and r: "(if truthy a then Inr a
             else bind (dict_get at ''agent_arn'' JNull)
               (\<lambda>b. if truthy b then Inr b else Inr JNull)) = Inr y"
    unfolding agent_arn_of_def bind_Inr by blast
  have a': "a = get_or (descend XA ''ARN'') JNull"
    using dict_get_level [OF assms(1) a] .
  show ?thesis
  proof (cases "truthy a")
    case True
    with r a' show ?thesis by (cases "descend XA ''ARN''") (auto simp: get_or_def)
  next
    case False
    with r have "bind (dict_get at ''agent_arn'' JNull)
        (\<lambda>b. if truthy b then Inr b else Inr JNull) = Inr y"
      by simp
    then obtain b where b: "dict_get at ''agent_arn'' JNull = Inr b"
      and rb: "(if truthy b then Inr b else Inr JNull) = (Inr y :: py_error + json)"
      unfolding bind_Inr by blast
    have b': "b = get_or (descend XT ''agent_arn'') JNull"
      using dict_get_level [OF assms(2) b] .
    from False a' have 1: "first_present [descend XA ''ARN'', descend XT ''agent_arn'']
        = first_present [descend XT ''agent_arn'']"
      by (cases "descend XA ''ARN''") (auto simp: get_or_def)
    from rb b' show ?thesis unfolding 1
      by (cases "descend XT ''agent_arn''") (auto simp: get_or_def split: if_splits)
  qed
qed

lemma agent_username_level:
  assumes "ad = get_or XA (JObj [])" and "at = get_or XT (JObj [])"
    and "cd = get_or XC (JObj [])"
    and "agent_username_of ad at cd = Inr y"
  shows "y = first_present
    [descend XA ''Username'', descend XT ''agent_username'', descend XC ''Name'']"
proof -
  from assms(4) obtain a where a: "dict_get ad ''Username'' JNull = Inr a"
    and r: "(if truthy a then Inr a
             else bind (dict_get at ''agent_username'' JNull)
               (\<lambda>b. if truthy b then Inr b
                  else bind (dict_get cd ''Name'' JNull)
                    (\<lambda>c. if truthy c then Inr c else Inr JNull))) = Inr y"
    unfolding agent_username_of_def bind_Inr by blast
  have a': "a = get_or (descend XA ''Username'') JNull"
    using dict_get_level [OF assms(1) a] .
  show ?thesis
  proof (cases "truthy a")
    case True
    with r a' show ?thesis by (cases "descend XA ''Username''") (auto simp: get_or_def)
  next
    case False
    with r have "bind (dict_get at ''agent_username'' JNull)
        (\<lambda>b. if truthy b then Inr b
           else bind (dict_get cd ''Name'' JNull)
             (\<lambda>c. if truthy c then Inr c else Inr JNull)) = Inr y"
      by simp
    then obtain b where b: "dict_get at ''agent_username'' JNull = Inr b"
      and rb: "(if truthy b then Inr b
                else bind (dict_get cd ''Name'' JNull)
                  (\<lambda>c. if truthy c then Inr c else Inr JNull)) = Inr y"
      unfolding bind_Inr by blast
    have b': "b = get_or (descend XT ''agent_username'') JNull"
      using dict_get_level [OF assms(2) b] .
    from False a' have 1: "first_present
        [descend XA ''Username'', descend XT ''agent_username'', descend XC ''Name'']
        = first_present [descend XT ''agent_username'', descend XC ''Name'']"
      by (cases "descend XA ''Username''") (auto simp: get_or_def)
    show ?thesis
    proof (cases "truthy b")
      case True
      with rb b' show ?thesis unfolding 1
        by (cases "descend XT ''agent_username''") (auto simp: get_or_def)
    next
      case nb: False
      with rb have "bind (dict_get cd ''Name'' JNull)
          (\<lambda>c. if truthy c then Inr c else Inr JNull) = Inr y"
        by simp
      then obtain c where c: "dict_get cd ''Name'' JNull = Inr c"
        and rc: "(if truthy c then Inr c else Inr JNull) = (Inr y :: py_error + json)"
        unfolding bind_Inr by blast
      have c': "c = get_or (descend XC ''Name'') JNull"
        using dict_get_level [OF assms(3) c] .
      from nb b' have 2: "first_present [descend XT ''agent_username'', descend XC ''Name'']
          = first_present [descend XC ''Name'']"
        by (cases "descend XT ''agent_username''") (auto simp: get_or_def)
      from rc c' show ?thesis unfolding 1 2
        by (cases "descend XC ''Name''") (auto simp: get_or_def split: if_splits)
    qed
  qed
qed

lemma extract_spec:
  assumes "extract_fields ev = Inr f"
  shows "f = spec_fields ev"
proof -
  from assms obtain details contact_data cid iarn customer_endpoint cnum agent_data
      attributes aarn auser queue_data qname imeth media_streams customer customer_audio sarn
    where d: "dict_get ev ''Details'' (JObj []) = Inr details"
      and c: "dict_get details ''ContactData'' (JObj []) = Inr contact_data"
      and cid: "dict_get contact_data ''ContactId'' (JStr []) = Inr cid"
      and iarn: "dict_get contact_data ''InstanceARN'' (JStr []) = Inr iarn"
      and ce: "dict_get contact_data ''CustomerEndpoint'' (JObj []) = Inr customer_endpoint"
      and cnum: "dict_get customer_endpoint ''Address'' (JStr []) = Inr cnum"
      and ad: "dict_get contact_data ''Agent'' (JObj []) = Inr agent_data"
      and at: "dict_get contact_data ''Attributes'' (JObj []) = Inr attributes"
      and aarn: "agent_arn_of agent_data attributes = Inr aarn"
      and auser: "agent_username_of agent_data attributes contact_data = Inr auser"
      and q: "dict_get contact_data ''Queue'' (JObj []) = Inr queue_data"
      and qname: "dict_get queue_data ''Name'' (JStr []) = Inr qname"
      and imeth: "dict_get contact_data ''InitiationMethod'' (JStr []) = Inr imeth"
      and ms: "dict_get contact_data ''MediaStreams'' (JObj []) = Inr media_streams"
      and cu: "dict_get media_streams ''Customer'' (JObj []) = Inr customer"
      and au: "dict_get customer ''Audio'' (JObj []) = Inr customer_audio"
      and sarn: "dict_get customer_audio ''StreamARN'' (JStr []) = Inr sarn"
      and f: "f = \<lparr>contact_id = cid, instance_arn = iarn, customer_number = cnum,
            agent_arn = aarn, agent_username = auser, queue_name = qname,
            initiation_method = imeth, stream_arn = sarn\<rparr>"
    unfolding extract_fields_def bind_Inr by (elim exE conjE) auto
  have e0: "ev = get_or (Some ev) (JObj [])" by (simp add: get_or_def)
  note d' = dict_get_level [OF e0 d]
  note c' = dict_get_level [OF d' c]
  note cid' = dict_get_level [OF c' cid]
  note iarn' = dict_get_level [OF c' iarn]
  note ce' = dict_get_level [OF c' ce]
  note cnum' = dict_get_level [OF ce' cnum]
  note ad' = dict_get_level [OF c' ad]
  note at' = dict_get_level [OF c' at]
  note aarn' = agent_arn_level [OF ad' at' aarn]
  note auser' = agent_username_level [OF ad' at' c' auser]
  note q' = dict_get_level [OF c' q]
  note qname' = dict_get_level [OF q' qname]
  note imeth' = dict_get_level [OF c' imeth]
  note ms' = dict_get_level [OF c' ms]
  note cu' = dict_get_level [OF ms' cu]
  note au' = dict_get_level [OF cu' au]
  note sarn' = dict_get_level [OF au' sarn]
  show ?thesis
    unfolding f spec_fields_def lookup_path_def
    by (simp add: cid' iarn' cnum' aarn' auser' qname' imeth' sarn')
qed


lemma dict_get_ok:
  assumes "mapping_or_missing X"
  shows "dict_get (get_or X (JObj [])) k d = Inr (get_or (descend X k) d)"
proof (cases X)
  case None
  then show ?thesis by (simp add: get_or_def)
next
  case (Some v)
  with assms show ?thesis
    by (cases v) (simp_all add: get_or_def mapping_or_missing_def)
qed

lemma first_present_get_or:
  "first_present (x # xs) =
     (if truthy (get_or x JNull) then get_or x JNull else first_present xs)"
  by (cases x) (simp_all add: get_or_def)

lemma agent_arn_ok:
  assumes "mapping_or_missing XA" and "mapping_or_missing XT"
  shows "agent_arn_of (get_or XA (JObj [])) (get_or XT (JObj []))
    = Inr (first_present [descend XA ''ARN'', descend XT ''agent_arn''])"
  by (simp add: agent_arn_of_def bind_def dict_get_ok [OF assms(1)] dict_get_ok [OF assms(2)]
      first_present_get_or)

lemma agent_username_ok:
  assumes "mapping_or_missing XA" and "mapping_or_missing XT" and "mapping_or_missing XC"
  shows "agent_username_of (get_or XA (JObj [])) (get_or XT (JObj [])) (get_or XC (JObj []))
    = Inr (first_present
        [descend XA ''Username'', descend XT ''agent_username'', descend XC ''Name''])"
  by (simp add: agent_username_of_def bind_def dict_get_ok [OF assms(1)]
      dict_get_ok [OF assms(2)] dict_get_ok [OF assms(3)] first_present_get_or)

lemma extract_total:
  assumes "levels_ok ev"
  shows "extract_fields ev = Inr (spec_fields ev)"
proof -
  let ?D = "descend (Some ev) ''Details''"
  let ?C = "descend ?D ''ContactData''"
  let ?M = "descend ?C ''MediaStreams''"
  let ?U = "descend ?M ''Customer''"
  from assms have ok: "mapping_or_missing (Some ev)" "mapping_or_missing ?D"
    "mapping_or_missing ?C"
    "mapping_or_missing (descend ?C ''CustomerEndpoint'')"
    "mapping_or_missing (descend ?C ''Agent'')"
    "mapping_or_missing (descend ?C ''Attributes'')"
    "mapping_or_missing (descend ?C ''Queue'')"
    "mapping_or_missing ?M" "mapping_or_missing ?U"
    "mapping_or_missing (descend ?U ''Audio'')"
    by (simp_all add: levels_ok_def level_paths_def lookup_path_def mapping_or_missing_def)
  have e0: "ev = get_or (Some ev) (JObj [])" by (simp add: get_or_def)
  have "extract_fields (get_or (Some ev) (JObj [])) = Inr (spec_fields ev)"
    unfolding extract_fields_def spec_fields_def lookup_path_def
    by (simp add: bind_def dict_get_ok ok agent_arn_ok agent_username_ok del: descend.simps)
  with e0 show ?thesis by simp
qed


subsection \<open>The sample events\<close>

lemma levels_ok_samples:
  "levels_ok ev_minimal" "levels_ok ev_full" "levels_ok ev_attributes"
  "levels_ok ev_no_stream" "levels_ok ev_no_contact" "levels_ok ev_numeric_id"
  by (simp_all add: levels_ok_def level_paths_def lookup_path_def mapping_or_missing_def
      ev_minimal_def ev_full_def ev_attributes_def ev_no_stream_def ev_no_contact_def
      ev_numeric_id_def)

lemma spec_fields_minimal:
  "spec_fields ev_minimal =
     \<lparr>contact_id = JStr ''c-1'', instance_arn = JStr [], customer_number = JStr [],
      agent_arn = JNull, agent_username = JNull, queue_name = JStr [],
      initiation_method = JStr [], stream_arn = JStr ''s-1''\<rparr>"
  by (simp add: spec_fields_def lookup_path_def get_or_def ev_minimal_def)

lemma spec_fields_full:
  "spec_fields ev_full =
     \<lparr>contact_id = JStr ''c-2'', instance_arn = JStr ''i-2'',
      customer_number = JStr ''+15550100'', agent_arn = JStr ''A1'',
      agent_username = JStr ''U1'', queue_name = JStr ''support'',
      initiation_method = JStr ''INBOUND'', stream_arn = JStr ''s-2''\<rparr>"
  by (simp add: spec_fields_def lookup_path_def get_or_def ev_full_def)

lemma spec_fields_attributes:
  "spec_fields ev_attributes =
     \<lparr>contact_id = JStr ''c-3'', instance_arn = JStr [], customer_number = JStr [],
      agent_arn = JStr ''A2'', agent_username = JStr ''N3'', queue_name = JStr [],
      initiation_method = JStr [], stream_arn = JStr ''s-3''\<rparr>"
  by (simp add: spec_fields_def lookup_path_def get_or_def ev_attributes_def)

lemma spec_fields_no_stream:
  "spec_fields ev_no_stream =
     \<lparr>contact_id = JStr ''c-4'', instance_arn = JStr [], customer_number = JStr [],
      agent_arn = JNull, agent_username = JStr ''U2'', queue_name = JStr [],
      initiation_method = JStr [], stream_arn = JStr []\<rparr>"
  by (simp add: spec_fields_def lookup_path_def get_or_def ev_no_stream_def)

lemma spec_fields_no_contact:
  "spec_fields ev_no_contact =
     \<lparr>contact_id = JStr [], instance_arn = JStr [], customer_number = JStr [],
      agent_arn = JNull, agent_username = JNull, queue_name = JStr [],
      initiation_method = JStr [], stream_arn = JStr ''s-5''\<rparr>"
  by (simp add: spec_fields_def lookup_path_def get_or_def ev_no_contact_def)

lemma spec_fields_numeric_id:
  "spec_fields ev_numeric_id =
     \<lparr>contact_id = JInt 7, instance_arn = JStr [], customer_number = JStr [],
      agent_arn = JNull, agent_username = JNull, queue_name = JStr [],
      initiation_method = JStr [], stream_arn = JStr ''s-6''\<rparr>"
  by (simp add: spec_fields_def lookup_path_def get_or_def ev_numeric_id_def)

lemma extract_details_text: "extract_fields ev_details_text = Inl AttributeError"
  by (simp add: extract_fields_def bind_def ev_details_text_def)

lemma extract_agent_text: "extract_fields ev_agent_text = Inl AttributeError"
  by (simp add: extract_fields_def bind_def ev_agent_text_def agent_arn_of_def)

lemma extract_queue_text: "extract_fields ev_queue_text = Inl AttributeError"
  by (simp add: extract_fields_def bind_def ev_queue_text_def agent_arn_of_def
      agent_username_of_def)

lemma extract_agent_text_attributes:
  "extract_fields ev_agent_text_attributes = Inl AttributeError"
  by (simp add: extract_fields_def bind_def ev_agent_text_attributes_def agent_arn_of_def)

lemma extract_attributes_text: "extract_fields ev_attributes_text = Inl AttributeError"
  by (simp add: extract_fields_def bind_def ev_attributes_text_def agent_arn_of_def)

lemma utf8_samples: "\<not> utf8_ok latin1_body" "\<not> utf8_ok [0xFF]" "utf8_ok []"
  by (simp_all add: latin1_body_def cont_def)

lemma env_samples:
  "WHISPA_API_URL env_configured = ''https://whispa.example/api/''"
  "WHISPA_API_KEY env_configured = ''k-1''"
  "WHISPA_API_URL env_no_key = ''https://whispa.example''"
  "WHISPA_API_KEY env_no_key = []"
  "WHISPA_API_URL [] = []"
  by (simp_all add: WHISPA_API_URL_def WHISPA_API_KEY_def environ_get_def env_configured_def
      env_no_key_def)

lemma rstrip_samples:
  "rstrip_slash ''https://whispa.example/api/'' = ''https://whispa.example/api''"
  "rstrip_slash ''https://whispa.example'' = ''https://whispa.example''"
  by (simp_all add: rstrip_slash_def)


lemmas sample_extracts =
  extract_total [OF levels_ok_samples(1)] extract_total [OF levels_ok_samples(2)]
  extract_total [OF levels_ok_samples(3)] extract_total [OF levels_ok_samples(4)]
  extract_total [OF levels_ok_samples(5)] extract_total [OF levels_ok_samples(6)]

lemma absent_get_or: "absent x \<longleftrightarrow> \<not> truthy (get_or x (JStr []))"
  by (cases x) (simp_all add: absent_def get_or_def)

lemma handler_after_extract:
  assumes "extract_fields ev = Inr f"
  shows "lambda_handler env net ev =
     (if \<not> truthy (stream_arn f) then (Inr missing_stream_arn, [])
      else if \<not> truthy (contact_id f) then (Inr missing_contact_id, [])
      else if WHISPA_API_URL env \<noteq> [] then
        (case deliver (net (build_request env (build_payload f))) of
           Some e \<Rightarrow> (Inl e, [build_request env (build_payload f)])
         | None \<Rightarrow> (Inr (success f), [build_request env (build_payload f)]))
      else (Inr (success f), []))"
  using assms by (simp add: lambda_handler_def Let_def)

section \<open>Validation\<close>

text \<open>
  Claim C1, as amended. Validation is short-circuit and ordered. Whenever the extraction
  of an event completes, that is, no \<^verbatim>\<open>.get\<close> of lines 41 to 79 is called on a value
  that is not a dict: if the stream ARN at \<^verbatim>\<open>MediaStreams.Customer.Audio.StreamARN\<close> is absent,
  the handler returns the 400 record for the missing stream ARN and hands no request to the
  network, whatever the other fields, the configuration and the backend are; otherwise, if
  the contact id is absent, it returns the 400 record for the missing contact id, again
  with no request.
\<close>

theorem validation_short_circuit:
  assumes "extract_fields ev = Inr f"
  shows "(absent (lookup_path ev stream_arn_path) \<longrightarrow>
            lambda_handler env net ev = (Inr missing_stream_arn, []))
       \<and> (\<not> absent (lookup_path ev stream_arn_path) \<and> absent (lookup_path ev contact_id_path) \<longrightarrow>
            lambda_handler env net ev = (Inr missing_contact_id, []))"
proof -
  have f: "f = spec_fields ev" using assms by (rule extract_spec)
  have s: "absent (lookup_path ev stream_arn_path) \<longleftrightarrow> \<not> truthy (stream_arn f)"
    unfolding f by (simp add: spec_fields_def absent_get_or)
  have c: "absent (lookup_path ev contact_id_path) \<longleftrightarrow> \<not> truthy (contact_id f)"
    unfolding f by (simp add: spec_fields_def absent_get_or)
  show ?thesis
    unfolding s c by (simp add: handler_after_extract [OF assms])
qed

theorem validation_short_circuit_witness:
  "extract_fields ev_no_stream = Inr (spec_fields ev_no_stream)
   \<and> absent (lookup_path ev_no_stream stream_arn_path)
   \<and> lambda_handler env_configured (always URLError) ev_no_stream
       = (Inr [(''statusCode'', JInt 400),
               (''error'', JStr ''Missing stream_arn - 'Start media streaming' block must run first'')], [])
   \<and> extract_fields ev_no_contact = Inr (spec_fields ev_no_contact)
   \<and> \<not> absent (lookup_path ev_no_contact stream_arn_path)
   \<and> absent (lookup_path ev_no_contact contact_id_path)
   \<and> lambda_handler env_configured (always URLError) ev_no_contact
       = (Inr [(''statusCode'', JInt 400), (''error'', JStr ''Missing contact_id in event'')], [])"
proof -
  have a: "absent (lookup_path ev_no_stream stream_arn_path)"
    by (simp add: absent_def lookup_path_def ev_no_stream_def)
  have b: "\<not> absent (lookup_path ev_no_contact stream_arn_path)"
    "absent (lookup_path ev_no_contact contact_id_path)"
    by (simp_all add: absent_def lookup_path_def ev_no_contact_def)
  show ?thesis
    using validation_short_circuit [OF sample_extracts(4), of env_configured "always URLError"]
      validation_short_circuit [OF sample_extracts(5), of env_configured "always URLError"]
      a b sample_extracts(4) sample_extracts(5)
    by (simp add: missing_stream_arn_def missing_contact_id_def)
qed


text \<open>
  Claim C1 as stated fails for some events with an absent stream ARN. In an
  event without \<^verbatim>\<open>MediaStreams\<close> whose \<^verbatim>\<open>Queue\<close> is a string, line 71 raises
  \<^verbatim>\<open>AttributeError\<close> before the validation is reached: no 400 record is returned.
\<close>

theorem validation_unreached_on_text_queue:
  "absent (lookup_path ev_queue_text stream_arn_path)
   \<and> lambda_handler env_configured (always URLError) ev_queue_text
       = (Inl AttributeError, [])"
proof -
  have a: "absent (lookup_path ev_queue_text stream_arn_path)"
    by (simp add: absent_def lookup_path_def ev_queue_text_def)
  have h: "lambda_handler env_configured (always URLError) ev_queue_text
      = (Inl AttributeError, [])"
    by (simp add: lambda_handler_def extract_queue_text)
  show ?thesis
    by (intro conjI) (fact a h)+
qed

section \<open>The agent fallback chains\<close>

lemma first_present_two:
  "(\<forall>a. present x a \<longrightarrow> first_present [x, y] = a)
   \<and> (absent x \<longrightarrow> (\<forall>b. present y b \<longrightarrow> first_present [x, y] = b))
   \<and> (absent x \<and> absent y \<longrightarrow> first_present [x, y] = JNull)"
  by (cases x; cases y) (auto simp: present_def absent_def)

lemma first_present_three:
  "(\<forall>a. present x a \<longrightarrow> first_present [x, y, z] = a)
   \<and> (absent x \<longrightarrow> (\<forall>b. present y b \<longrightarrow> first_present [x, y, z] = b))
   \<and> (absent x \<and> absent y \<longrightarrow> (\<forall>c. present z c \<longrightarrow> first_present [x, y, z] = c))
   \<and> (absent x \<and> absent y \<and> absent z \<longrightarrow> first_present [x, y, z] = JNull)"
  by (cases x; cases y; cases z) (auto simp: present_def absent_def)

text \<open>
  Claim C3, as amended. The agent ARN follows a two-step precedence in which an empty
  value counts as absent. Whenever the extraction of an event completes, that is, no
  \<^verbatim>\<open>.get\<close> of lines 41 to 79 is called on a value that is not a dict: if \<^verbatim>\<open>ContactData.Agent.ARN\<close>
  is present and non-empty, the extracted \<^verbatim>\<open>agent_arn\<close> is that value; otherwise, if
  \<^verbatim>\<open>ContactData.Attributes.agent_arn\<close> is present and non-empty, it is that one;
  otherwise it is \<^verbatim>\<open>None\<close>.
\<close>

theorem agent_arn_precedence:
  assumes "extract_fields ev = Inr f"
  shows "(\<forall>a. present (lookup_path ev agent_arn_path) a \<longrightarrow> agent_arn f = a)
       \<and> (absent (lookup_path ev agent_arn_path) \<longrightarrow>
            (\<forall>b. present (lookup_path ev attr_agent_arn_path) b \<longrightarrow> agent_arn f = b))
       \<and> (absent (lookup_path ev agent_arn_path) \<and> absent (lookup_path ev attr_agent_arn_path) \<longrightarrow>
            agent_arn f = JNull)"
proof -
  have "agent_arn f =
      first_present [lookup_path ev agent_arn_path, lookup_path ev attr_agent_arn_path]"
    unfolding extract_spec [OF assms] by (simp add: spec_fields_def)
  then show ?thesis
    using first_present_two [of "lookup_path ev agent_arn_path" "lookup_path ev attr_agent_arn_path"]
    by simp
qed

theorem agent_arn_precedence_witness:
  "extract_fields ev_full = Inr (spec_fields ev_full)
   \<and> present (lookup_path ev_full agent_arn_path) (JStr ''A1'')
   \<and> present (lookup_path ev_full attr_agent_arn_path) (JStr ''A2'')
   \<and> agent_arn (spec_fields ev_full) = JStr ''A1''
   \<and> extract_fields ev_attributes = Inr (spec_fields ev_attributes)
   \<and> absent (lookup_path ev_attributes agent_arn_path)
   \<and> present (lookup_path ev_attributes attr_agent_arn_path) (JStr ''A2'')
   \<and> agent_arn (spec_fields ev_attributes) = JStr ''A2''
   \<and> extract_fields ev_no_stream = Inr (spec_fields ev_no_stream)
   \<and> absent (lookup_path ev_no_stream agent_arn_path)
   \<and> absent (lookup_path ev_no_stream attr_agent_arn_path)
   \<and> agent_arn (spec_fields ev_no_stream) = JNull"
proof -
  have p: "present (lookup_path ev_full agent_arn_path) (JStr ''A1'')"
    "present (lookup_path ev_full attr_agent_arn_path) (JStr ''A2'')"
    "absent (lookup_path ev_attributes agent_arn_path)"
    "present (lookup_path ev_attributes attr_agent_arn_path) (JStr ''A2'')"
    "absent (lookup_path ev_no_stream agent_arn_path)"
    "absent (lookup_path ev_no_stream attr_agent_arn_path)"
    by (simp_all add: present_def absent_def lookup_path_def ev_full_def ev_attributes_def
        ev_no_stream_def)
  note r1 = agent_arn_precedence [OF sample_extracts(2), THEN conjunct1, rule_format, OF p(1)]
  note r2 = agent_arn_precedence [OF sample_extracts(3), THEN conjunct2, THEN conjunct1,
      rule_format, OF p(3) p(4)]
  note r3 = agent_arn_precedence [OF sample_extracts(4), THEN conjunct2, THEN conjunct2,
      rule_format, OF conjI, OF p(5) p(6)]
  show ?thesis
    by (intro conjI) (fact sample_extracts p r1 r2 r3)+
qed

text \<open>
  Claim C3 as stated fails for some events. When \<^verbatim>\<open>Agent\<close> is a string
  there is no \<^verbatim>\<open>Agent.ARN\<close>, and \<^verbatim>\<open>Attributes.agent_arn\<close> is present and non-empty,
  yet line 61 raises \<^verbatim>\<open>AttributeError\<close> on \<^verbatim>\<open>agent_data.get\<close>: nothing is extracted.
\<close>

theorem agent_arn_unextracted_on_text_agent:
  "absent (lookup_path ev_agent_text_attributes agent_arn_path)
   \<and> present (lookup_path ev_agent_text_attributes attr_agent_arn_path) (JStr ''A2'')
   \<and> extract_fields ev_agent_text_attributes = Inl AttributeError
   \<and> lambda_handler env_configured (always URLError) ev_agent_text_attributes
       = (Inl AttributeError, [])"
proof -
  have a: "absent (lookup_path ev_agent_text_attributes agent_arn_path)"
    "present (lookup_path ev_agent_text_attributes attr_agent_arn_path) (JStr ''A2'')"
    by (simp_all add: absent_def present_def lookup_path_def ev_agent_text_attributes_def)
  have h: "lambda_handler env_configured (always URLError) ev_agent_text_attributes
      = (Inl AttributeError, [])"
    by (simp add: lambda_handler_def extract_agent_text_attributes)
  show ?thesis
    by (intro conjI) (fact a h extract_agent_text_attributes)+
qed

text \<open>
  Claim C4, as amended. The agent user name follows a three-step precedence in which an
  empty value counts as absent. Whenever the extraction of an event completes, that is, no
  \<^verbatim>\<open>.get\<close> of lines 41 to 79 is called on a value that is not a dict, the extracted
  \<^verbatim>\<open>agent_username\<close> is the first present and non-empty value among
  \<^verbatim>\<open>ContactData.Agent.Username\<close>, \<^verbatim>\<open>ContactData.Attributes.agent_username\<close> and
  \<^verbatim>\<open>ContactData.Name\<close>, and \<^verbatim>\<open>None\<close> when all three are absent.
\<close>

theorem agent_username_precedence:
  assumes "extract_fields ev = Inr f"
  shows "(\<forall>a. present (lookup_path ev agent_username_path) a \<longrightarrow> agent_username f = a)
       \<and> (absent (lookup_path ev agent_username_path) \<longrightarrow>
            (\<forall>b. present (lookup_path ev attr_agent_username_path) b \<longrightarrow> agent_username f = b))
       \<and> (absent (lookup_path ev agent_username_path)
            \<and> absent (lookup_path ev attr_agent_username_path) \<longrightarrow>
            (\<forall>c. present (lookup_path ev contact_name_path) c \<longrightarrow> agent_username f = c))
       \<and> (absent (lookup_path ev agent_username_path)
            \<and> absent (lookup_path ev attr_agent_username_path)
            \<and> absent (lookup_path ev contact_name_path) \<longrightarrow>
            agent_username f = JNull)"
proof -
  have "agent_username f =
      first_present [lookup_path ev agent_username_path,
        lookup_path ev attr_agent_username_path, lookup_path ev contact_name_path]"
    unfolding extract_spec [OF assms] by (simp add: spec_fields_def)
  then show ?thesis
    using first_present_three [of "lookup_path ev agent_username_path"
        "lookup_path ev attr_agent_username_path" "lookup_path ev contact_name_path"]
    by simp
qed

theorem agent_username_precedence_witness:
  "extract_fields ev_full = Inr (spec_fields ev_full)
   \<and> present (lookup_path ev_full agent_username_path) (JStr ''U1'')
   \<and> agent_username (spec_fields ev_full) = JStr ''U1''
   \<and> extract_fields ev_no_stream = Inr (spec_fields ev_no_stream)
   \<and> absent (lookup_path ev_no_stream agent_username_path)
   \<and> present (lookup_path ev_no_stream attr_agent_username_path) (JStr ''U2'')
   \<and> agent_username (spec_fields ev_no_stream) = JStr ''U2''
   \<and> extract_fields ev_attributes = Inr (spec_fields ev_attributes)
   \<and> absent (lookup_path ev_attributes agent_username_path)
   \<and> absent (lookup_path ev_attributes attr_agent_username_path)
   \<and> present (lookup_path ev_attributes contact_name_path) (JStr ''N3'')
   \<and> agent_username (spec_fields ev_attributes) = JStr ''N3''
   \<and> extract_fields ev_minimal = Inr (spec_fields ev_minimal)
   \<and> absent (lookup_path ev_minimal agent_username_path)
   \<and> absent (lookup_path ev_minimal attr_agent_username_path)
   \<and> absent (lookup_path ev_minimal contact_name_path)
   \<and> agent_username (spec_fields ev_minimal) = JNull"
proof -
  have p: "present (lookup_path ev_full agent_username_path) (JStr ''U1'')"
    "absent (lookup_path ev_no_stream agent_username_path)"
    "present (lookup_path ev_no_stream attr_agent_username_path) (JStr ''U2'')"
    "absent (lookup_path ev_attributes agent_username_path)"
    "absent (lookup_path ev_attributes attr_agent_username_path)"
    "present (lookup_path ev_attributes contact_name_path) (JStr ''N3'')"
    "absent (lookup_path ev_minimal agent_username_path)"
    "absent (lookup_path ev_minimal attr_agent_username_path)"
    "absent (lookup_path ev_minimal contact_name_path)"
    by (simp_all add: present_def absent_def lookup_path_def ev_full_def ev_attributes_def
        ev_no_stream_def ev_minimal_def)
  note r1 = agent_username_precedence [OF sample_extracts(2), THEN conjunct1, rule_format,
      OF p(1)]
  note r2 = agent_username_precedence [OF sample_extracts(4), THEN conjunct2, THEN conjunct1,
      rule_format, OF p(2) p(3)]
  note r3 = agent_username_precedence [OF sample_extracts(3), THEN conjunct2, THEN conjunct2,
      THEN conjunct1, rule_format, OF conjI, OF p(4) p(5) p(6)]
  note r4 = agent_username_precedence [OF sample_extracts(1), THEN conjunct2, THEN conjunct2,
      THEN conjunct2, rule_format, OF conjI, OF p(7) conjI, OF p(8) p(9)]
  show ?thesis
    by (intro conjI) (fact sample_extracts p r1 r2 r3 r4)+
qed


text \<open>
  Claim C4 as stated fails for some events. When \<^verbatim>\<open>Attributes\<close> is a
  string and there is no \<^verbatim>\<open>Agent\<close>, the first two sources are absent and
  \<^verbatim>\<open>ContactData.Name\<close> is present and non-empty, yet line 61 raises
  \<^verbatim>\<open>AttributeError\<close> on \<^verbatim>\<open>attributes.get\<close>: nothing is extracted.
\<close>

theorem agent_username_unextracted_on_text_attributes:
  "absent (lookup_path ev_attributes_text agent_username_path)
   \<and> absent (lookup_path ev_attributes_text attr_agent_username_path)
   \<and> present (lookup_path ev_attributes_text contact_name_path) (JStr ''N3'')
   \<and> extract_fields ev_attributes_text = Inl AttributeError
   \<and> lambda_handler env_configured (always URLError) ev_attributes_text
       = (Inl AttributeError, [])"
proof -
  have a: "absent (lookup_path ev_attributes_text agent_username_path)"
    "absent (lookup_path ev_attributes_text attr_agent_username_path)"
    "present (lookup_path ev_attributes_text contact_name_path) (JStr ''N3'')"
    by (simp_all add: absent_def present_def lookup_path_def ev_attributes_text_def)
  have h: "lambda_handler env_configured (always URLError) ev_attributes_text
      = (Inl AttributeError, [])"
    by (simp add: lambda_handler_def extract_attributes_text)
  show ?thesis
    by (intro conjI) (fact a h extract_attributes_text)+
qed

section \<open>Payload and request\<close>

lemma requests_after_validation:
  assumes "extract_fields ev = Inr f" and "truthy (stream_arn f)" and "truthy (contact_id f)"
  shows "snd (lambda_handler env net ev) =
     (if WHISPA_API_URL env \<noteq> [] then [build_request env (build_payload f)] else [])"
  using assms(2,3) by (simp add: handler_after_extract [OF assms(1)] split: option.split)

lemma handler_minimal_configured:
  "snd (lambda_handler env_configured net ev_minimal) =
     [build_request env_configured (build_payload (spec_fields ev_minimal))]"
  by (simp add: requests_after_validation [OF sample_extracts(1)] spec_fields_minimal env_samples)

text \<open>
  Claim C5. For every event that passes validation, the outbound payload is built from the
  extracted fields and has exactly the eight keys \<^verbatim>\<open>contact_id\<close>, \<^verbatim>\<open>stream_arn\<close>,
  \<^verbatim>\<open>customer_number\<close>, \<^verbatim>\<open>agent_arn\<close>, \<^verbatim>\<open>agent_username\<close>, \<^verbatim>\<open>instance_arn\<close>,
  \<^verbatim>\<open>queue_name\<close>, \<^verbatim>\<open>initiation_method\<close>; the two required fields carry their
  extracted values, each optional field carries \<^verbatim>\<open>null\<close> when it is absent and its
  extracted value otherwise; and this payload is the body of every request the handler
  makes.
\<close>

theorem payload_construction:
  assumes "extract_fields ev = Inr f" and "truthy (stream_arn f)" and "truthy (contact_id f)"
  shows "map fst (build_payload f) =
           [''contact_id'', ''stream_arn'', ''customer_number'', ''agent_arn'',
            ''agent_username'', ''instance_arn'', ''queue_name'', ''initiation_method'']
       \<and> map_of (build_payload f) ''contact_id'' = Some (contact_id f)
       \<and> map_of (build_payload f) ''stream_arn'' = Some (stream_arn f)
       \<and> map_of (build_payload f) ''customer_number'' =
           Some (if truthy (customer_number f) then customer_number f else JNull)
       \<and> map_of (build_payload f) ''agent_arn'' =
           Some (if truthy (agent_arn f) then agent_arn f else JNull)
       \<and> map_of (build_payload f) ''agent_username'' =
           Some (if truthy (agent_username f) then agent_username f else JNull)
       \<and> map_of (build_payload f) ''instance_arn'' =
           Some (if truthy (instance_arn f) then instance_arn f else JNull)
       \<and> map_of (build_payload f) ''queue_name'' =
           Some (if truthy (queue_name f) then queue_name f else JNull)
       \<and> map_of (build_payload f) ''initiation_method'' =
           Some (if truthy (initiation_method f) then initiation_method f else JNull)
       \<and> (\<forall>r \<in> set (snd (lambda_handler env net ev)). req_body r = build_payload f)"
proof -
  have keys: "map fst (build_payload f) =
           [''contact_id'', ''stream_arn'', ''customer_number'', ''agent_arn'',
            ''agent_username'', ''instance_arn'', ''queue_name'', ''initiation_method'']"
    by (simp add: build_payload_def)
  have vals: "map_of (build_payload f) ''contact_id'' = Some (contact_id f)"
    "map_of (build_payload f) ''stream_arn'' = Some (stream_arn f)"
    "map_of (build_payload f) ''customer_number'' =
           Some (if truthy (customer_number f) then customer_number f else JNull)"
    "map_of (build_payload f) ''agent_arn'' =
           Some (if truthy (agent_arn f) then agent_arn f else JNull)"
    "map_of (build_payload f) ''agent_username'' =
           Some (if truthy (agent_username f) then agent_username f else JNull)"
    "map_of (build_payload f) ''instance_arn'' =
           Some (if truthy (instance_arn f) then instance_arn f else JNull)"
    "map_of (build_payload f) ''queue_name'' =
           Some (if truthy (queue_name f) then queue_name f else JNull)"
    "map_of (build_payload f) ''initiation_method'' =
           Some (if truthy (initiation_method f) then initiation_method f else JNull)"
    by (simp_all add: build_payload_def or_none_def)
  have body: "\<forall>r \<in> set (snd (lambda_handler env net ev)). req_body r = build_payload f"
    by (simp add: requests_after_validation [OF assms] build_request_def)
  show ?thesis
    by (intro conjI) (fact keys vals body)+
qed

theorem payload_construction_witness:
  "extract_fields ev_minimal = Inr (spec_fields ev_minimal)
   \<and> truthy (stream_arn (spec_fields ev_minimal))
   \<and> truthy (contact_id (spec_fields ev_minimal))
   \<and> build_payload (spec_fields ev_minimal) =
       [(''contact_id'', JStr ''c-1''), (''stream_arn'', JStr ''s-1''),
        (''customer_number'', JNull), (''agent_arn'', JNull), (''agent_username'', JNull),
        (''instance_arn'', JNull), (''queue_name'', JNull), (''initiation_method'', JNull)]
   \<and> map_of (build_payload (spec_fields ev_minimal)) ''agent_arn'' = Some JNull
   \<and> map_of (build_payload (spec_fields ev_minimal)) ''contact_id'' = Some (JStr ''c-1'')
   \<and> map (req_body) (snd (lambda_handler env_configured (always URLError) ev_minimal))
       = [build_payload (spec_fields ev_minimal)]"
proof -
  have v: "truthy (stream_arn (spec_fields ev_minimal))"
    "truthy (contact_id (spec_fields ev_minimal))"
    by (simp_all add: spec_fields_minimal)
  note t = payload_construction [OF sample_extracts(1) v, of env_configured "always URLError"]
  have p: "build_payload (spec_fields ev_minimal) =
       [(''contact_id'', JStr ''c-1''), (''stream_arn'', JStr ''s-1''),
        (''customer_number'', JNull), (''agent_arn'', JNull), (''agent_username'', JNull),
        (''instance_arn'', JNull), (''queue_name'', JNull), (''initiation_method'', JNull)]"
    by (simp add: build_payload_def or_none_def spec_fields_minimal)
  have a: "map_of (build_payload (spec_fields ev_minimal)) ''agent_arn'' = Some JNull"
    using t by (simp add: spec_fields_minimal)
  have c: "map_of (build_payload (spec_fields ev_minimal)) ''contact_id'' = Some (JStr ''c-1'')"
    using t by (simp add: spec_fields_minimal)
  have b: "map (req_body) (snd (lambda_handler env_configured (always URLError) ev_minimal))
       = [build_payload (spec_fields ev_minimal)]"
    by (simp add: handler_minimal_configured build_request_def)
  show ?thesis
    by (intro conjI) (fact sample_extracts v p a c b)+
qed

text \<open>The base URL is the stripped URL followed by slashes only, and the stripped URL ends in none.\<close>

lemma rstrip_slash_decomp: "\<exists>n. s = rstrip_slash s @ replicate n CHR ''/''"
proof -
  let ?t = "takeWhile (\<lambda>c. c = CHR ''/'') (rev s)"
  have "\<forall>c \<in> set ?t. c = CHR ''/''" by (auto dest: set_takeWhileD)
  then have t: "replicate (length ?t) CHR ''/'' = ?t" by (rule replicate_length_same)
  have "rev (?t @ dropWhile (\<lambda>c. c = CHR ''/'') (rev s)) = rev (rev s)"
    by (simp only: takeWhile_dropWhile_id)
  then have "rev (dropWhile (\<lambda>c. c = CHR ''/'') (rev s)) @ rev ?t = s"
    by (simp only: rev_append rev_rev_ident)
  then have "s = rstrip_slash s @ rev ?t" by (simp add: rstrip_slash_def)
  also have "rev ?t = replicate (length ?t) CHR ''/''" using t by (metis rev_replicate)
  finally show ?thesis by blast
qed

lemma rstrip_slash_last: "rstrip_slash s = [] \<or> last (rstrip_slash s) \<noteq> CHR ''/''"
proof (cases "dropWhile (\<lambda>c. c = CHR ''/'') (rev s)")
  case Nil
  then show ?thesis by (simp add: rstrip_slash_def)
next
  case (Cons x xs)
  then have "x \<noteq> CHR ''/''" using hd_dropWhile [of "\<lambda>c. c = CHR ''/''" "rev s"] by simp
  with Cons show ?thesis by (simp add: rstrip_slash_def)
qed

text \<open>
  Claim C6. When a base URL is configured and validation passes, the handler hands exactly
  one request to the network, whatever the backend does: a POST to the base URL without
  its trailing slashes followed by \<^verbatim>\<open>/awsconnect/call-started\<close>, with the payload as
  body, the header \<^verbatim>\<open>Content-Type: application/json\<close>, the header \<^verbatim>\<open>X-API-Key\<close>
  exactly when an API key is configured, and the timeout 10. There is no second request.
\<close>

theorem single_post:
  assumes "extract_fields ev = Inr f" and "truthy (stream_arn f)" and "truthy (contact_id f)"
    and "WHISPA_API_URL env \<noteq> []"
  shows "snd (lambda_handler env net ev) =
           [\<lparr>req_method = ''POST'',
             req_url = rstrip_slash (WHISPA_API_URL env) @ ''/awsconnect/call-started'',
             req_headers =
               (''Content-Type'', ''application/json'') #
               (if WHISPA_API_KEY env = [] then [] else [(''X-API-Key'', WHISPA_API_KEY env)]),
             req_body = build_payload f,
             req_timeout = 10\<rparr>]
       \<and> (\<exists>n. WHISPA_API_URL env = rstrip_slash (WHISPA_API_URL env) @ replicate n CHR ''/'')
       \<and> (rstrip_slash (WHISPA_API_URL env) = []
            \<or> last (rstrip_slash (WHISPA_API_URL env)) \<noteq> CHR ''/'')"
proof -
  have "snd (lambda_handler env net ev) = [build_request env (build_payload f)]"
    using assms(4) by (simp add: requests_after_validation [OF assms(1,2,3)])
  then show ?thesis
    using rstrip_slash_decomp [of "WHISPA_API_URL env"] rstrip_slash_last [of "WHISPA_API_URL env"]
    by (simp add: build_request_def build_headers_def)
qed

theorem single_post_witness:
  "extract_fields ev_full = Inr (spec_fields ev_full)
   \<and> truthy (stream_arn (spec_fields ev_full)) \<and> truthy (contact_id (spec_fields ev_full))
   \<and> WHISPA_API_URL env_configured \<noteq> []
   \<and> snd (lambda_handler env_configured (always (HTTPError 500 None)) ev_full) =
       [\<lparr>req_method = ''POST'',
         req_url = ''https://whispa.example/api/awsconnect/call-started'',
         req_headers = [(''Content-Type'', ''application/json''), (''X-API-Key'', ''k-1'')],
         req_body =
           [(''contact_id'', JStr ''c-2''), (''stream_arn'', JStr ''s-2''),
            (''customer_number'', JStr ''+15550100''), (''agent_arn'', JStr ''A1''),
            (''agent_username'', JStr ''U1''), (''instance_arn'', JStr ''i-2''),
            (''queue_name'', JStr ''support''), (''initiation_method'', JStr ''INBOUND'')],
         req_timeout = 10\<rparr>]
   \<and> WHISPA_API_URL env_no_key \<noteq> []
   \<and> snd (lambda_handler env_no_key (always URLError) ev_full) =
       [\<lparr>req_method = ''POST'',
         req_url = ''https://whispa.example/awsconnect/call-started'',
         req_headers = [(''Content-Type'', ''application/json'')],
         req_body =
           [(''contact_id'', JStr ''c-2''), (''stream_arn'', JStr ''s-2''),
            (''customer_number'', JStr ''+15550100''), (''agent_arn'', JStr ''A1''),
            (''agent_username'', JStr ''U1''), (''instance_arn'', JStr ''i-2''),
            (''queue_name'', JStr ''support''), (''initiation_method'', JStr ''INBOUND'')],
         req_timeout = 10\<rparr>]"
proof -
  have v: "truthy (stream_arn (spec_fields ev_full))" "truthy (contact_id (spec_fields ev_full))"
    by (simp_all add: spec_fields_full)
  have u: "WHISPA_API_URL env_configured \<noteq> []" "WHISPA_API_URL env_no_key \<noteq> []"
    by (simp_all add: env_samples)
  note t1 = single_post [OF sample_extracts(2) v u(1), of "always (HTTPError 500 None)",
      THEN conjunct1]
  note t2 = single_post [OF sample_extracts(2) v u(2), of "always URLError", THEN conjunct1]
  have r1: "snd (lambda_handler env_configured (always (HTTPError 500 None)) ev_full) =
       [\<lparr>req_method = ''POST'',
         req_url = ''https://whispa.example/api/awsconnect/call-started'',
         req_headers = [(''Content-Type'', ''application/json''), (''X-API-Key'', ''k-1'')],
         req_body =
           [(''contact_id'', JStr ''c-2''), (''stream_arn'', JStr ''s-2''),
            (''customer_number'', JStr ''+15550100''), (''agent_arn'', JStr ''A1''),
            (''agent_username'', JStr ''U1''), (''instance_arn'', JStr ''i-2''),
            (''queue_name'', JStr ''support''), (''initiation_method'', JStr ''INBOUND'')],
         req_timeout = 10\<rparr>]"
    unfolding t1
    by (simp add: env_samples rstrip_samples spec_fields_full build_payload_def or_none_def)
  have r2: "snd (lambda_handler env_no_key (always URLError) ev_full) =
       [\<lparr>req_method = ''POST'',
         req_url = ''https://whispa.example/awsconnect/call-started'',
         req_headers = [(''Content-Type'', ''application/json'')],
         req_body =
           [(''contact_id'', JStr ''c-2''), (''stream_arn'', JStr ''s-2''),
            (''customer_number'', JStr ''+15550100''), (''agent_arn'', JStr ''A1''),
            (''agent_username'', JStr ''U1''), (''instance_arn'', JStr ''i-2''),
            (''queue_name'', JStr ''support''), (''initiation_method'', JStr ''INBOUND'')],
         req_timeout = 10\<rparr>]"
    unfolding t2
    by (simp add: env_samples rstrip_samples spec_fields_full build_payload_def or_none_def)
  show ?thesis
    by (intro conjI) (fact sample_extracts v u r1 r2)+
qed


section \<open>Delivery and the returned result\<close>

text \<open>
  The \<^verbatim>\<open>try\<close> statement lets an exception out in two cases only, both inside the
  \<^verbatim>\<open>except HTTPError\<close> clause: reading the error body raises, or the body is not UTF-8.
\<close>

lemma deliver_Some_iff:
  "deliver d = Some e \<longleftrightarrow>
     (\<exists>code. d = HTTPError code (Some ReadRaises) \<and> e = ReadError)
     \<or> (\<exists>code bs. d = HTTPError code (Some (ReadBytes bs)) \<and> \<not> utf8_ok bs
          \<and> e = UnicodeDecodeError)"
  by (cases d rule: deliver.cases) auto

lemma handler_result_contained:
  assumes "extract_fields ev = Inr f" and "delivery_contained env net f"
  shows "fst (lambda_handler env net ev) =
     Inr (if \<not> truthy (stream_arn f) then missing_stream_arn
          else if \<not> truthy (contact_id f) then missing_contact_id
          else success f)"
  using assms(2)
  by (simp add: handler_after_extract [OF assms(1)] delivery_contained_def split: if_splits)

lemma handler_shape:
  assumes "levels_ok ev"
    and "delivery_contained env net (spec_fields ev)"
  shows "\<exists>r. fst (lambda_handler env net ev) = Inr r
           \<and> ((\<exists>e. r = failure_record e) \<or> (\<exists>c s. r = success_record c s))"
proof -
  note r = handler_result_contained [where net = net and env = env,
      OF extract_total [OF assms(1)] assms(2)]
  have "missing_stream_arn =
      failure_record ''Missing stream_arn - 'Start media streaming' block must run first''"
    and "missing_contact_id = failure_record ''Missing contact_id in event''"
    and "success (spec_fields ev) =
      success_record (contact_id (spec_fields ev)) (stream_arn (spec_fields ev))"
    by (simp_all add: missing_stream_arn_def missing_contact_id_def success_def
        failure_record_def success_record_def)
  then show ?thesis unfolding r by auto
qed

lemma always_simp: "always d req = d"
  by (simp add: always_def)

text \<open>
  Without such an exception the result is the same for every configuration and backend.
\<close>

lemma result_independent_when_contained:
  assumes "delivery_contained env1 net1 (spec_fields ev)"
    and "delivery_contained env2 net2 (spec_fields ev)"
  shows "fst (lambda_handler env1 net1 ev) = fst (lambda_handler env2 net2 ev)"
proof (cases "extract_fields ev")
  case (Inl e)
  then show ?thesis by (simp add: lambda_handler_def)
next
  case (Inr f)
  then have f: "f = spec_fields ev" by (rule extract_spec)
  show ?thesis
    using assms
    by (simp add: handler_result_contained [OF Inr, where net = net1 and env = env1]
        handler_result_contained [OF Inr, where net = net2 and env = env2] f)
qed

text \<open>
  Claim C2. For an event that passes validation the handler is to return the 200 record
  whatever the delivery outcome. At the fully populated sample event, with a base URL
  configured and a backend that answers 502 with a Latin-1 body, the exception of
  \<^verbatim>\<open>.decode("utf-8")\<close> on line 129 leaves the handler after the one request: no
  record is returned.
\<close>

theorem http_error_body_escapes:
  "lambda_handler env_configured (always (HTTPError 502 (Some (ReadBytes latin1_body)))) ev_full
     = (Inl UnicodeDecodeError,
        [build_request env_configured (build_payload (spec_fields ev_full))])"
  by (simp add: handler_after_extract [OF sample_extracts(2)] spec_fields_full env_samples
      always_simp utf8_samples(1,2))

text \<open>
  Claim C9. Two invocations with the identical event and configuration are to end alike.
  At the minimal sample event they do not: with a backend answering 200 the handler
  returns the 200 record, with one answering 500 and the body \<^verbatim>\<open>FF\<close> it raises
  \<^verbatim>\<open>UnicodeDecodeError\<close>.
\<close>

theorem result_varies_with_delivery:
  "fst (lambda_handler env_configured (always (Responded 200 (ReadBytes []))) ev_minimal)
     = Inr (success_record (JStr ''c-1'') (JStr ''s-1''))
   \<and> fst (lambda_handler env_configured (always (HTTPError 500 (Some (ReadBytes [0xFF]))))
        ev_minimal)
     = Inl UnicodeDecodeError"
  by (simp add: handler_after_extract [OF sample_extracts(1)] spec_fields_minimal env_samples
      always_simp utf8_samples(1,2) success_def success_record_def)

section \<open>The two result shapes\<close>

text \<open>
  Claim C7, as amended. For every event whose levels are well shaped (the event is a dict
  and each of the nine intermediate objects is missing or a dict), every configuration and
  every backend whose outcome for the handler's request lets no exception out of the
  \<^verbatim>\<open>try\<close> statement, the handler returns, and what it returns is a failure record
  \<^verbatim>\<open>{statusCode: 400, error}\<close> or a success record
  \<^verbatim>\<open>{statusCode: 200, contactId, streamArn}\<close>.
\<close>

theorem handler_fixed_shape:
  assumes "levels_ok ev"
    and "delivery_contained env net (spec_fields ev)"
  shows "\<exists>r. fst (lambda_handler env net ev) = Inr r
           \<and> ((\<exists>e. r = failure_record e) \<or> (\<exists>c s. r = success_record c s))"
  using assms by (rule handler_shape)

theorem handler_fixed_shape_witness:
  "levels_ok ev_minimal
   \<and> delivery_contained env_configured (always (Responded 200 (ReadBytes [])))
        (spec_fields ev_minimal)
   \<and> (\<exists>r. fst (lambda_handler env_configured (always (Responded 200 (ReadBytes []))) ev_minimal)
           = Inr r
         \<and> ((\<exists>e. r = failure_record e) \<or> (\<exists>c s. r = success_record c s)))
   \<and> fst (lambda_handler env_configured (always (Responded 200 (ReadBytes []))) ev_minimal)
       = Inr [(''statusCode'', JInt 200), (''contactId'', JStr ''c-1''),
              (''streamArn'', JStr ''s-1'')]"
proof -
  have d: "delivery_contained env_configured (always (Responded 200 (ReadBytes [])))
        (spec_fields ev_minimal)"
    by (simp add: delivery_contained_def always_simp)
  note t = handler_fixed_shape [where net = "always (Responded 200 (ReadBytes []))"
      and env = env_configured, OF levels_ok_samples(1) d]
  have v: "fst (lambda_handler env_configured (always (Responded 200 (ReadBytes []))) ev_minimal)
       = Inr [(''statusCode'', JInt 200), (''contactId'', JStr ''c-1''),
              (''streamArn'', JStr ''s-1'')]"
    by (simp add: handler_result_contained [where net = "always (Responded 200 (ReadBytes []))"
          and env = env_configured, OF sample_extracts(1) d] spec_fields_minimal
        success_def)
  show ?thesis
    by (intro conjI) (fact levels_ok_samples d t v)+
qed

text \<open>
  Claim C7 as stated fails: an event whose \<^verbatim>\<open>Details\<close> is a string makes line 42 raise
  \<^verbatim>\<open>AttributeError\<close>, which nothing catches.
\<close>

theorem handler_faults_on_text_details:
  "lambda_handler env_configured (always URLError) ev_details_text = (Inl AttributeError, [])"
  by (simp add: lambda_handler_def extract_details_text)

section \<open>Normalisation of the payload\<close>

lemma text_truthy: "text_or_null x \<Longrightarrow> truthy x \<Longrightarrow> nonempty_text x"
  by (cases x) simp_all

lemma or_none_normal:
  "or_none x \<noteq> JStr [] \<and> (or_none x = JNull \<or> truthy (or_none x))
   \<and> (text_or_null x \<longrightarrow> or_none x = JNull \<or> nonempty_text (or_none x))"
  by (auto simp: or_none_def text_truthy)

lemma required_normal:
  "truthy x \<Longrightarrow> x \<noteq> JStr [] \<and> (x = JNull \<or> truthy x)
   \<and> (text_or_null x \<longrightarrow> x = JNull \<or> nonempty_text x)"
  by (auto simp: text_truthy)

text \<open>
  Claim C8, as amended. For every event that passes validation, no payload field is the
  empty string: each is \<^verbatim>\<open>null\<close> or a truthy value carried over unchanged from the
  extracted fields, and when the extracted fields are strings or \<^verbatim>\<open>None\<close> each payload
  field is a non-empty string or \<^verbatim>\<open>null\<close>.
\<close>

theorem payload_normalized:
  assumes "extract_fields ev = Inr f" and "truthy (stream_arn f)" and "truthy (contact_id f)"
    and "(k, v) \<in> set (build_payload f)"
  shows "v \<noteq> JStr [] \<and> (v = JNull \<or> truthy v)
       \<and> (text_fields f \<longrightarrow> v = JNull \<or> nonempty_text v)"
proof -
  from assms(4) consider "v = contact_id f" | "v = stream_arn f"
    | "v = or_none (customer_number f)" | "v = or_none (agent_arn f)"
    | "v = or_none (agent_username f)" | "v = or_none (instance_arn f)"
    | "v = or_none (queue_name f)" | "v = or_none (initiation_method f)"
    by (auto simp: build_payload_def)
  then show ?thesis
  proof cases
    case 1
    with required_normal [OF assms(3)] show ?thesis by (simp add: text_fields_def)
  next
    case 2
    with required_normal [OF assms(2)] show ?thesis by (simp add: text_fields_def)
  next
    case 3
    with or_none_normal [of "customer_number f"] show ?thesis by (simp add: text_fields_def)
  next
    case 4
    with or_none_normal [of "agent_arn f"] show ?thesis by (simp add: text_fields_def)
  next
    case 5
    with or_none_normal [of "agent_username f"] show ?thesis by (simp add: text_fields_def)
  next
    case 6
    with or_none_normal [of "instance_arn f"] show ?thesis by (simp add: text_fields_def)
  next
    case 7
    with or_none_normal [of "queue_name f"] show ?thesis by (simp add: text_fields_def)
  next
    case 8
    with or_none_normal [of "initiation_method f"] show ?thesis by (simp add: text_fields_def)
  qed
qed

theorem payload_normalized_witness:
  "extract_fields ev_full = Inr (spec_fields ev_full)
   \<and> truthy (stream_arn (spec_fields ev_full)) \<and> truthy (contact_id (spec_fields ev_full))
   \<and> (''agent_arn'', JStr ''A1'') \<in> set (build_payload (spec_fields ev_full))
   \<and> text_fields (spec_fields ev_full)
   \<and> nonempty_text (JStr ''A1'')
   \<and> extract_fields ev_minimal = Inr (spec_fields ev_minimal)
   \<and> truthy (stream_arn (spec_fields ev_minimal)) \<and> truthy (contact_id (spec_fields ev_minimal))
   \<and> (''queue_name'', JNull) \<in> set (build_payload (spec_fields ev_minimal))
   \<and> text_fields (spec_fields ev_minimal)
   \<and> JNull \<noteq> JStr []"
proof -
  have v: "truthy (stream_arn (spec_fields ev_full))" "truthy (contact_id (spec_fields ev_full))"
    "truthy (stream_arn (spec_fields ev_minimal))" "truthy (contact_id (spec_fields ev_minimal))"
    by (simp_all add: spec_fields_full spec_fields_minimal)
  have m: "(''agent_arn'', JStr ''A1'') \<in> set (build_payload (spec_fields ev_full))"
    "(''queue_name'', JNull) \<in> set (build_payload (spec_fields ev_minimal))"
    by (simp_all add: build_payload_def or_none_def spec_fields_full spec_fields_minimal)
  have t: "text_fields (spec_fields ev_full)" "text_fields (spec_fields ev_minimal)"
    by (simp_all add: text_fields_def spec_fields_full spec_fields_minimal)
  note p1 = payload_normalized [OF sample_extracts(2) v(1,2) m(1)]
  note p2 = payload_normalized [OF sample_extracts(1) v(3,4) m(2)]
  have n: "nonempty_text (JStr ''A1'')" using p1 t(1) by simp
  have z: "JNull \<noteq> JStr []" using p2 by simp
  show ?thesis
    by (intro conjI) (fact sample_extracts v m t n z)+
qed

text \<open>
  Claim C8 as stated fails: a contact id that is the JSON number 7 passes validation and
  reaches the payload as the number 7, neither a string nor \<^verbatim>\<open>null\<close>.
\<close>

theorem numeric_contact_id_in_payload:
  "extract_fields ev_numeric_id = Inr (spec_fields ev_numeric_id)
   \<and> truthy (stream_arn (spec_fields ev_numeric_id))
   \<and> truthy (contact_id (spec_fields ev_numeric_id))
   \<and> (''contact_id'', JInt 7) \<in> set (build_payload (spec_fields ev_numeric_id))
   \<and> JInt 7 \<noteq> JNull \<and> \<not> nonempty_text (JInt 7)"
  by (simp add: sample_extracts spec_fields_numeric_id build_payload_def)


section \<open>Missing levels\<close>

text \<open>
  A lookup below a missing object finds nothing, so a field with a single path takes its
  default and a fallback chain loses that candidate.
\<close>

lemma descend_missing: "descend None k = None"
  by simp

lemma missing_top:
  assumes "lookup_path ev [''Details''] = None
     \<or> lookup_path ev [''Details'', ''ContactData''] = None"
  shows "spec_fields ev = absent_fields"
proof -
  from assms have c: "descend (descend (Some ev) ''Details'') ''ContactData'' = None"
    by (auto simp: lookup_path_def simp del: descend.simps(2))
  show ?thesis
    by (simp add: spec_fields_def absent_fields_def lookup_path_def get_or_def c
        del: descend.simps(2))
qed

lemma missing_customer_endpoint:
  assumes "lookup_path ev [''Details'', ''ContactData'', ''CustomerEndpoint''] = None"
  shows "customer_number (spec_fields ev) = JStr []"
  using assms by (simp add: spec_fields_def lookup_path_def get_or_def del: descend.simps(2))

lemma missing_queue:
  assumes "lookup_path ev [''Details'', ''ContactData'', ''Queue''] = None"
  shows "queue_name (spec_fields ev) = JStr []"
  using assms by (simp add: spec_fields_def lookup_path_def get_or_def del: descend.simps(2))

lemma missing_media:
  assumes "lookup_path ev [''Details'', ''ContactData'', ''MediaStreams''] = None
     \<or> lookup_path ev [''Details'', ''ContactData'', ''MediaStreams'', ''Customer''] = None
     \<or> lookup_path ev [''Details'', ''ContactData'', ''MediaStreams'', ''Customer'', ''Audio'']
         = None"
  shows "stream_arn (spec_fields ev) = JStr []"
proof -
  from assms have "descend (descend (descend (descend (descend (Some ev) ''Details'')
      ''ContactData'') ''MediaStreams'') ''Customer'') ''Audio'' = None"
    by (auto simp: lookup_path_def simp del: descend.simps(2))
  then show ?thesis
    by (simp add: spec_fields_def lookup_path_def get_or_def del: descend.simps(2))
qed

lemma missing_agent:
  assumes "lookup_path ev [''Details'', ''ContactData'', ''Agent''] = None"
  shows "agent_arn (spec_fields ev) = first_present [lookup_path ev attr_agent_arn_path]
     \<and> agent_username (spec_fields ev) =
         first_present [lookup_path ev attr_agent_username_path,
           lookup_path ev contact_name_path]"
  using assms by (simp add: spec_fields_def lookup_path_def del: descend.simps(2))

lemma first_present_skip: "y = None \<Longrightarrow> first_present (x # y # xs) = first_present (x # xs)"
  by (cases x) simp_all

lemma missing_attributes:
  assumes "lookup_path ev [''Details'', ''ContactData'', ''Attributes''] = None"
  shows "agent_arn (spec_fields ev) = first_present [lookup_path ev agent_arn_path]
     \<and> agent_username (spec_fields ev) =
         first_present [lookup_path ev agent_username_path,
           lookup_path ev contact_name_path]"
  using assms
  by (simp add: spec_fields_def lookup_path_def first_present_skip del: descend.simps(2))


lemma levels_ok_empty: "levels_ok (JObj [])"
  by (simp add: levels_ok_def level_paths_def lookup_path_def mapping_or_missing_def)

text \<open>
  Claim C10, as amended. For every event whose levels are well shaped (the event is a dict
  and each of the nine intermediate objects is missing or a dict) the extraction completes,
  each missing level acting as an empty dict: without \<^verbatim>\<open>Details\<close> or \<^verbatim>\<open>ContactData\<close>
  every field is absent; without \<^verbatim>\<open>CustomerEndpoint\<close>, \<^verbatim>\<open>Queue\<close> or one of
  \<^verbatim>\<open>MediaStreams\<close>, \<^verbatim>\<open>Customer\<close>, \<^verbatim>\<open>Audio\<close> the field below it is absent; without
  \<^verbatim>\<open>Agent\<close> or \<^verbatim>\<open>Attributes\<close> the two agent chains go on with their remaining
  candidates. The handler then returns one of the two result shapes, for every backend
  whose outcome lets no exception out of the \<^verbatim>\<open>try\<close> statement.
\<close>

theorem extraction_total_on_missing_levels:
  assumes "levels_ok ev"
    and "delivery_contained env net (spec_fields ev)"
  shows "\<exists>f. extract_fields ev = Inr f
     \<and> (lookup_path ev [''Details''] = None
          \<or> lookup_path ev [''Details'', ''ContactData''] = None
        \<longrightarrow> f = absent_fields)
     \<and> (lookup_path ev [''Details'', ''ContactData'', ''CustomerEndpoint''] = None
        \<longrightarrow> customer_number f = JStr [])
     \<and> (lookup_path ev [''Details'', ''ContactData'', ''Queue''] = None
        \<longrightarrow> queue_name f = JStr [])
     \<and> (lookup_path ev [''Details'', ''ContactData'', ''MediaStreams''] = None
          \<or> lookup_path ev [''Details'', ''ContactData'', ''MediaStreams'', ''Customer''] = None
          \<or> lookup_path ev [''Details'', ''ContactData'', ''MediaStreams'', ''Customer'', ''Audio'']
              = None
        \<longrightarrow> stream_arn f = JStr [])
     \<and> (lookup_path ev [''Details'', ''ContactData'', ''Agent''] = None
        \<longrightarrow> agent_arn f = first_present [lookup_path ev attr_agent_arn_path]
          \<and> agent_username f =
              first_present [lookup_path ev attr_agent_username_path,
                lookup_path ev contact_name_path])
     \<and> (lookup_path ev [''Details'', ''ContactData'', ''Attributes''] = None
        \<longrightarrow> agent_arn f = first_present [lookup_path ev agent_arn_path]
          \<and> agent_username f =
              first_present [lookup_path ev agent_username_path,
                lookup_path ev contact_name_path])
     \<and> (\<exists>r. fst (lambda_handler env net ev) = Inr r
           \<and> ((\<exists>e. r = failure_record e) \<or> (\<exists>c s. r = success_record c s)))"
proof -
  have e: "extract_fields ev = Inr (spec_fields ev)"
    using assms(1) by (rule extract_total)
  have s: "\<exists>r. fst (lambda_handler env net ev) = Inr r
           \<and> ((\<exists>e. r = failure_record e) \<or> (\<exists>c s. r = success_record c s))"
    using assms by (rule handler_shape)
  show ?thesis
    apply (rule exI [of _ "spec_fields ev"])
    apply (intro conjI)
           apply (rule e)
          apply (rule impI, erule missing_top)
         apply (rule impI, erule missing_customer_endpoint)
        apply (rule impI, erule missing_queue)
       apply (rule impI, erule missing_media)
      apply (rule impI, erule missing_agent)
     apply (rule impI, erule missing_attributes)
    apply (rule s)
    done
qed

theorem extraction_total_on_missing_levels_witness:
  "levels_ok (JObj [])
   \<and> delivery_contained env_configured (always URLError) (spec_fields (JObj []))
   \<and> lookup_path (JObj []) [''Details''] = None
   \<and> extract_fields (JObj []) = Inr absent_fields
   \<and> fst (lambda_handler env_configured (always URLError) (JObj [])) =
       Inr (failure_record
         ''Missing stream_arn - 'Start media streaming' block must run first'')
   \<and> levels_ok ev_minimal
   \<and> delivery_contained env_configured (always URLError) (spec_fields ev_minimal)
   \<and> lookup_path ev_minimal [''Details'', ''ContactData'', ''Queue''] = None
   \<and> lookup_path ev_minimal [''Details'', ''ContactData'', ''Agent''] = None
   \<and> lookup_path ev_minimal [''Details'', ''ContactData'', ''Attributes''] = None
   \<and> queue_name (spec_fields ev_minimal) = JStr []
   \<and> agent_arn (spec_fields ev_minimal) = JNull
   \<and> fst (lambda_handler env_configured (always URLError) ev_minimal) =
       Inr (success_record (JStr ''c-1'') (JStr ''s-1''))"
proof -
  have d: "delivery_contained env_configured (always URLError) (spec_fields (JObj []))"
    "delivery_contained env_configured (always URLError) (spec_fields ev_minimal)"
    by (simp_all add: delivery_contained_def always_simp)
  have m: "lookup_path (JObj []) [''Details''] = None"
    "lookup_path ev_minimal [''Details'', ''ContactData'', ''Queue''] = None"
    "lookup_path ev_minimal [''Details'', ''ContactData'', ''Agent''] = None"
    "lookup_path ev_minimal [''Details'', ''ContactData'', ''Attributes''] = None"
    by (simp_all add: lookup_path_def ev_minimal_def)
  note t = extraction_total_on_missing_levels [where net = "always URLError"
      and env = env_configured, OF levels_ok_empty d(1)]
  from t obtain f where f: "extract_fields (JObj []) = Inr f"
    and a: "lookup_path (JObj []) [''Details''] = None
          \<or> lookup_path (JObj []) [''Details'', ''ContactData''] = None
        \<longrightarrow> f = absent_fields"
    by (elim exE conjE)
  from a m(1) have "f = absent_fields" by (simp only: simp_thms)
  with f have e: "extract_fields (JObj []) = Inr absent_fields" by simp
  have r1: "fst (lambda_handler env_configured (always URLError) (JObj [])) =
       Inr (failure_record
         ''Missing stream_arn - 'Start media streaming' block must run first'')"
    by (simp add: handler_after_extract [OF e] absent_fields_def missing_stream_arn_def
        failure_record_def)
  have q: "queue_name (spec_fields ev_minimal) = JStr []"
    "agent_arn (spec_fields ev_minimal) = JNull"
    by (simp_all add: spec_fields_minimal)
  have r2: "fst (lambda_handler env_configured (always URLError) ev_minimal) =
       Inr (success_record (JStr ''c-1'') (JStr ''s-1''))"
    by (simp add: handler_after_extract [OF sample_extracts(1)] spec_fields_minimal
        env_samples always_simp success_def success_record_def)
  show ?thesis
    by (intro conjI) (fact levels_ok_empty levels_ok_samples d m e r1 q r2)+
qed

text \<open>
  Claim C10 as stated fails: in a dict event without \<^verbatim>\<open>Queue\<close> and \<^verbatim>\<open>MediaStreams\<close>
  whose \<^verbatim>\<open>Agent\<close> is a string, line 61 raises \<^verbatim>\<open>AttributeError\<close>: no field below a
  missing object is extracted and no record is returned.
\<close>

theorem extraction_faults_on_text_agent:
  "is_mapping ev_agent_text
   \<and> lookup_path ev_agent_text [''Details'', ''ContactData'', ''Queue''] = None
   \<and> lookup_path ev_agent_text [''Details'', ''ContactData'', ''MediaStreams''] = None
   \<and> lambda_handler env_configured (always URLError) ev_agent_text = (Inl AttributeError, [])"
proof -
  have h: "lambda_handler env_configured (always URLError) ev_agent_text
      = (Inl AttributeError, [])"
    by (simp add: lambda_handler_def extract_agent_text)
  have m: "is_mapping ev_agent_text"
    "lookup_path ev_agent_text [''Details'', ''ContactData'', ''Queue''] = None"
    "lookup_path ev_agent_text [''Details'', ''ContactData'', ''MediaStreams''] = None"
    by (simp_all add: lookup_path_def ev_agent_text_def)
  show ?thesis
    by (intro conjI) (fact h m)+
qed


end
